theory Spec2Isabelle
  imports
    Complex_Main
    "HOL-Library.Char_ord"
    "HOL-Library.List_Lexorder"
    "HOL-Library.Option_ord"
    "HOL-Library.Multiset"
begin

section \<open>The students table (init_db.py)\<close>

text \<open>
  The table of \<^verbatim>\<open>init_db.py\<close>:
  \<^verbatim>\<open>
  CREATE TABLE IF NOT EXISTS students (
      id INTEGER PRIMARY KEY AUTOINCREMENT,
      name TEXT NOT NULL,
      email TEXT UNIQUE NOT NULL,
      grade INTEGER CHECK(grade >= 0 AND grade <= 100),
      created_at TIMESTAMP DEFAULT CURRENT_TIMESTAMP
  )
  \<close>
  A row is a record. The columns \<open>name\<close> and \<open>email\<close> are NOT NULL, so they hold
  text; \<open>grade\<close> is nullable, so it holds \<open>int option\<close> with \<open>None\<close> for NULL.
  Text is a byte string (SQLite compares TEXT with the BINARY collation, byte by byte)
  and the clock value that CURRENT_TIMESTAMP reads is an explicit argument. Python's
  integers are unbounded, SQLite's have 64 bits: the sqlite3 module raises OverflowError
  when it is asked to bind an integer outside the signed 64-bit range to a \<^verbatim>\<open>?\<close>, and
  the statement is not run.
\<close>

type_synonym timestamp = string

record student =
  student_id :: int
  name :: string
  email :: string
  grade :: "int option"
  created_at :: timestamp

text \<open>
  The database file: the rows of the table in rowid order, the counter that
  AUTOINCREMENT keeps in \<^verbatim>\<open>sqlite_sequence\<close> (the largest rowid ever handed out), and
  the statements that the mutating operations have sent to the engine so far. The last
  field is not stored anywhere by the program; it records each \<^verbatim>\<open>conn.execute\<close> of a
  create, update or delete so that "no statement was executed" can be stated.
\<close>

datatype stmt = SELECT | INSERT | UPDATE | DELETE

record db =
  rows :: "student list"
  seq :: int
  executed :: "stmt list"

definition empty_db :: db where
  "empty_db = \<lparr>rows = [], seq = 0, executed = []\<rparr>"

subsection \<open>SQL comparisons on nullable values\<close>

text \<open>
  A comparison with NULL is NULL; \<open>AND\<close> is false as soon as one side is false.
  A WHERE clause and a CASE WHEN branch take a row only when the condition is true;
  a CHECK constraint rejects a row only when the condition is false.
\<close>

definition sql_ge :: "int option \<Rightarrow> int \<Rightarrow> bool option" where
  "sql_ge v k = (case v of None \<Rightarrow> None | Some g \<Rightarrow> Some (g \<ge> k))"

definition sql_le :: "int option \<Rightarrow> int \<Rightarrow> bool option" where
  "sql_le v k = (case v of None \<Rightarrow> None | Some g \<Rightarrow> Some (g \<le> k))"

definition sql_lt :: "int option \<Rightarrow> int \<Rightarrow> bool option" where
  "sql_lt v k = (case v of None \<Rightarrow> None | Some g \<Rightarrow> Some (g < k))"

fun sql_and :: "bool option \<Rightarrow> bool option \<Rightarrow> bool option" where
  "sql_and (Some False) _ = Some False"
| "sql_and _ (Some False) = Some False"
| "sql_and (Some True) (Some True) = Some True"
| "sql_and _ _ = None"

definition sql_true :: "bool option \<Rightarrow> bool" where
  "sql_true c = (c = Some True)"

definition check_grade :: "int option \<Rightarrow> bool" where
  \<comment> \<open>\<^verbatim>\<open>CHECK(grade >= 0 AND grade <= 100)\<close>\<close>
  "check_grade g = (sql_and (sql_ge g 0) (sql_le g 100) \<noteq> Some False)"

subsection \<open>The statements the program sends\<close>

text \<open>
  An exception is a value: \<open>ValueError\<close> with its message, \<open>TypeError\<close> (Python
  refuses to order \<open>None\<close> against a number), \<open>OverflowError\<close> from the binding of
  a parameter, \<open>IntegrityError\<close> as sqlite3 raises it for a violated constraint, and
  \<open>Abort\<close> for Flask's \<^verbatim>\<open>abort(code, description=...)\<close>. Every operation that
  writes takes the database and returns its outcome with the database after the call.
\<close>

datatype constraint = NotNull_name | NotNull_email | Check_grade | Unique_email

datatype error =
    ValueError string
  | TypeError
  | OverflowError
  | IntegrityError "constraint"
  | Abort nat string

definition int64 :: "int \<Rightarrow> bool" where
  \<comment> \<open>the integers that sqlite3 can bind\<close>
  "int64 k = (- 9223372036854775808 \<le> k \<and> k \<le> 9223372036854775807)"

definition bindable :: "int option \<Rightarrow> bool" where
  \<comment> \<open>\<^verbatim>\<open>None\<close> is bound as NULL\<close>
  "bindable v = (case v of None \<Rightarrow> True | Some k \<Rightarrow> int64 k)"

definition next_rowid :: "db \<Rightarrow> int" where
  \<comment> \<open>AUTOINCREMENT: one more than the largest rowid ever used. Rowids are handed out
      by this rule alone, one at a time from 1, and stay below SQLite's limit.\<close>
  "next_rowid d = fold max (map student_id (rows d)) (seq d) + 1"

definition sql_insert ::
  "db \<Rightarrow> timestamp \<Rightarrow> string option \<Rightarrow> string option \<Rightarrow> int option \<Rightarrow> (error + int) \<times> db" where
  \<comment> \<open>\<^verbatim>\<open>INSERT INTO students (name, email, grade) VALUES (?, ?, ?)\<close>, then commit;
      a violated constraint raises and nothing is committed\<close>
  "sql_insert d now n e g =
     (if \<not> bindable g then (Inl OverflowError, d) else
      let d1 = d\<lparr>executed := executed d @ [INSERT]\<rparr> in
      case n of None \<Rightarrow> (Inl (IntegrityError NotNull_name), d1) | Some n' \<Rightarrow>
      (case e of None \<Rightarrow> (Inl (IntegrityError NotNull_email), d1) | Some e' \<Rightarrow>
        if \<not> check_grade g then (Inl (IntegrityError Check_grade), d1)
        else if e' \<in> set (map email (rows d)) then (Inl (IntegrityError Unique_email), d1)
        else
          (let i = next_rowid d;
               r = \<lparr>student_id = i, name = n', email = e', grade = g, created_at = now\<rparr>
           in (Inr i, d1\<lparr>rows := rows d @ [r], seq := i\<rparr>))))"

definition set_columns :: "string \<Rightarrow> string \<Rightarrow> int option \<Rightarrow> int \<Rightarrow> student \<Rightarrow> student" where
  "set_columns n e g i r =
     (if student_id r = i then r\<lparr>name := n, email := e, grade := g\<rparr> else r)"

definition sql_update ::
  "db \<Rightarrow> string option \<Rightarrow> string option \<Rightarrow> int option \<Rightarrow> int \<Rightarrow> (error + nat) \<times> db" where
  \<comment> \<open>\<^verbatim>\<open>UPDATE students SET name = ?, email = ?, grade = ? WHERE id = ?\<close>, then commit;
      the result is the cursor's rowcount\<close>
  "sql_update d n e g i =
     (if \<not> (bindable g \<and> int64 i) then (Inl OverflowError, d) else
      let d1 = d\<lparr>executed := executed d @ [UPDATE]\<rparr> in
      if i \<notin> set (map student_id (rows d)) then (Inr 0, d1)
      else
      case n of None \<Rightarrow> (Inl (IntegrityError NotNull_name), d1) | Some n' \<Rightarrow>
      (case e of None \<Rightarrow> (Inl (IntegrityError NotNull_email), d1) | Some e' \<Rightarrow>
        if \<not> check_grade g then (Inl (IntegrityError Check_grade), d1)
        else if e' \<in> set (map email (filter (\<lambda>r. student_id r \<noteq> i) (rows d)))
          then (Inl (IntegrityError Unique_email), d1)
        else (Inr (length (filter (\<lambda>r. student_id r = i) (rows d))),
              d1\<lparr>rows := map (set_columns n' e' g i) (rows d)\<rparr>)))"


definition sql_select_id :: "db \<Rightarrow> int \<Rightarrow> (error + int option) \<times> db" where
  \<comment> \<open>\<^verbatim>\<open>SELECT id FROM students WHERE id = ?\<close> with \<^verbatim>\<open>one=True\<close>\<close>
  "sql_select_id d i =
     (if \<not> int64 i then (Inl OverflowError, d) else
      (Inr (case filter (\<lambda>r. student_id r = i) (rows d) of
              [] \<Rightarrow> None | r # _ \<Rightarrow> Some (student_id r)),
       d\<lparr>executed := executed d @ [SELECT]\<rparr>))"



definition select_by_id :: "db \<Rightarrow> int \<Rightarrow> error + student option" where
  \<comment> \<open>\<^verbatim>\<open>SELECT * FROM students WHERE id = ?\<close>, first row or nothing\<close>
  "select_by_id d i =
     (if \<not> int64 i then Inl OverflowError else
      Inr (case filter (\<lambda>r. student_id r = i) (rows d) of [] \<Rightarrow> None | r # _ \<Rightarrow> Some r))"

subsection \<open>The aggregate query\<close>

text \<open>
  \<^verbatim>\<open>
  SELECT COUNT(*) as total_students, AVG(grade) as average_grade,
         MAX(grade) as highest_grade, MIN(grade) as lowest_grade,
         COUNT(CASE WHEN grade >= 90 THEN 1 END) as a_students,
         COUNT(CASE WHEN grade >= 80 AND grade < 90 THEN 1 END) as b_students,
         COUNT(CASE WHEN grade >= 70 AND grade < 80 THEN 1 END) as c_students,
         COUNT(CASE WHEN grade < 70 THEN 1 END) as failing_students
  FROM students
  \<close>
  AVG, MAX and MIN skip NULL and are NULL when nothing is left; COUNT(expr) counts the
  rows where expr is not NULL, and a CASE without ELSE is NULL when its condition is not
  true. SQLite computes AVG in floating point; the model keeps the exact quotient.
\<close>

record statistics =
  total_students :: nat
  average_grade :: "rat option"
  highest_grade :: "int option"
  lowest_grade :: "int option"
  a_students :: nat
  b_students :: nat
  c_students :: nat
  failing_students :: nat

fun non_null :: "'a option list \<Rightarrow> 'a list" where
  "non_null [] = []"
| "non_null (None # vs) = non_null vs"
| "non_null (Some v # vs) = v # non_null vs"

definition sql_avg :: "int option list \<Rightarrow> rat option" where
  "sql_avg vs =
     (case non_null vs of [] \<Rightarrow> None
      | g # gs \<Rightarrow> Some (of_int (sum_list (g # gs)) / of_nat (length (g # gs))))"

definition sql_max :: "int option list \<Rightarrow> int option" where
  "sql_max vs = (case non_null vs of [] \<Rightarrow> None | g # gs \<Rightarrow> Some (fold max gs g))"

definition sql_min :: "int option list \<Rightarrow> int option" where
  "sql_min vs = (case non_null vs of [] \<Rightarrow> None | g # gs \<Rightarrow> Some (fold min gs g))"

definition is_a :: "student \<Rightarrow> bool" where
  "is_a r = sql_true (sql_ge (grade r) 90)"

definition is_b :: "student \<Rightarrow> bool" where
  "is_b r = sql_true (sql_and (sql_ge (grade r) 80) (sql_lt (grade r) 90))"

definition is_c :: "student \<Rightarrow> bool" where
  "is_c r = sql_true (sql_and (sql_ge (grade r) 70) (sql_lt (grade r) 80))"

definition is_failing :: "student \<Rightarrow> bool" where
  "is_failing r = sql_true (sql_lt (grade r) 70)"

definition select_statistics :: "db \<Rightarrow> statistics" where
  "select_statistics d =
     \<lparr>total_students = length (rows d),
      average_grade = sql_avg (map grade (rows d)),
      highest_grade = sql_max (map grade (rows d)),
      lowest_grade = sql_min (map grade (rows d)),
      a_students = length (filter is_a (rows d)),
      b_students = length (filter is_b (rows d)),
      c_students = length (filter is_c (rows d)),
      failing_students = length (filter is_failing (rows d))\<rparr>"

section \<open>The sample data (init_db.py)\<close>

definition sample_students :: "(string \<times> string \<times> int) list" where
  "sample_students =
     [(''Alice Johnson'', ''alice@school.edu'', 92),
      (''Bob Smith'', ''bob@school.edu'', 78),
      (''Charlie Brown'', ''charlie@school.edu'', 85),
      (''Diana Prince'', ''diana@school.edu'', 95),
      (''Eve Adams'', ''eve@school.edu'', 88)]"

definition insert_or_ignore :: "timestamp \<Rightarrow> string \<times> string \<times> int \<Rightarrow> db \<Rightarrow> error + db" where
  \<comment> \<open>\<^verbatim>\<open>INSERT OR IGNORE INTO students (name, email, grade) VALUES (?, ?, ?)\<close>: a row
      that violates a constraint is skipped, but the rowid drawn for it is used up, so the
      AUTOINCREMENT counter moves on\<close>
  "insert_or_ignore now s d =
     (case s of (n, e, g) \<Rightarrow>
        (case sql_insert d now (Some n) (Some e) (Some g) of
           (Inl err, d') \<Rightarrow>
             (case err of IntegrityError c \<Rightarrow> Inr (d'\<lparr>seq := next_rowid d\<rparr>) | _ \<Rightarrow> Inl err)
         | (Inr i, d') \<Rightarrow> Inr d'))"

fun executemany :: "timestamp \<Rightarrow> (string \<times> string \<times> int) list \<Rightarrow> db \<Rightarrow> error + db" where
  \<comment> \<open>one insert per tuple, in order; an exception ends the loop\<close>
  "executemany now [] d = Inr d"
| "executemany now (s # ss) d =
     (case insert_or_ignore now s d of Inl err \<Rightarrow> Inl err | Inr d' \<Rightarrow> executemany now ss d')"

definition init_db :: "timestamp \<Rightarrow> db \<Rightarrow> db" where
  \<comment> \<open>the database file after the script has run: \<^verbatim>\<open>conn.commit()\<close> follows
      \<^verbatim>\<open>executemany\<close>, so an exception there leaves the file as it was\<close>
  "init_db now d =
     (case executemany now sample_students d of Inl err \<Rightarrow> d | Inr d' \<Rightarrow> d')"

section \<open>The command-line repository (student_manager.py)\<close>

definition grade_in_range :: "int \<Rightarrow> bool" where
  \<comment> \<open>\<^verbatim>\<open>0 <= grade <= 100\<close>\<close>
  "grade_in_range g = (0 \<le> g \<and> g \<le> 100)"


definition get_student_by_id :: "db \<Rightarrow> int \<Rightarrow> error + student option" where
  "get_student_by_id d i = select_by_id d i"

definition add_student ::
  "db \<Rightarrow> timestamp \<Rightarrow> string \<Rightarrow> string \<Rightarrow> int option \<Rightarrow> (error + int) \<times> db" where
  "add_student d now n e g =
     (case g of None \<Rightarrow> (Inl TypeError, d) | Some k \<Rightarrow>
      if \<not> grade_in_range k then (Inl (ValueError ''Grade must be between 0 and 100''), d)
      else
        (case sql_insert d now (Some n) (Some e) (Some k) of
           (Inl err, d') \<Rightarrow> (Inl err, d')
         | (Inr i, d') \<Rightarrow> (Inr i, d')))"

definition update_student ::
  "db \<Rightarrow> int \<Rightarrow> string \<Rightarrow> string \<Rightarrow> int option \<Rightarrow> (error + bool) \<times> db" where
  "update_student d i n e g =
     (case g of None \<Rightarrow> (Inl TypeError, d) | Some k \<Rightarrow>
      if \<not> grade_in_range k then (Inl (ValueError ''Grade must be between 0 and 100''), d)
      else
        (case sql_update d (Some n) (Some e) (Some k) i of
           (Inl err, d') \<Rightarrow> (Inl err, d')
         | (Inr rowcount, d') \<Rightarrow> (Inr (rowcount > 0), d')))"


definition get_statistics :: "db \<Rightarrow> statistics" where
  "get_statistics d = select_statistics d"


section \<open>The HTTP handlers (backend.py)\<close>

text \<open>
  The request body is the parsed JSON object. A field is absent, \<^verbatim>\<open>null\<close>, or a
  value of the type the table gives it (text for \<open>name\<close> and \<open>email\<close>, an integer
  for \<open>grade\<close>); \<open>other_keys\<close> are the further keys of the object. The handlers of
  this file share their names with the functions of student_manager.py, so they carry
  the prefix \<open>backend_\<close>.
\<close>

datatype 'a field = Absent | Null | Val 'a

record body =
  name_field :: "string field"
  email_field :: "string field"
  grade_field :: "int field"
  other_keys :: "string list"

definition is_empty :: "body \<Rightarrow> bool" where
  \<comment> \<open>\<^verbatim>\<open>not request.json\<close>: an object with no key is falsy\<close>
  "is_empty b =
     (name_field b = Absent \<and> email_field b = Absent \<and> grade_field b = Absent
      \<and> other_keys b = [])"

definition has_key :: "body \<Rightarrow> string \<Rightarrow> bool" where
  \<comment> \<open>\<^verbatim>\<open>field in request.json\<close>\<close>
  "has_key b k =
     (if k = ''name'' then name_field b \<noteq> Absent
      else if k = ''email'' then email_field b \<noteq> Absent
      else if k = ''grade'' then grade_field b \<noteq> Absent
      else k \<in> set (other_keys b))"

fun first_missing :: "body \<Rightarrow> string list \<Rightarrow> string option" where
  \<comment> \<open>the loop \<^verbatim>\<open>for field in required_fields\<close>, stopping at the first absent one\<close>
  "first_missing b [] = None"
| "first_missing b (k # ks) = (if \<not> has_key b k then Some k else first_missing b ks)"

definition validate_json :: "string list \<Rightarrow> body \<Rightarrow> error option" where
  "validate_json required_fields b =
     (if is_empty b then Some (Abort 400 ''No JSON data provided'')
      else case first_missing b required_fields of
             Some k \<Rightarrow> Some (Abort 400 (''Missing required field: '' @ k))
           | None \<Rightarrow> None)"

definition param :: "'a field \<Rightarrow> 'a option" where
  \<comment> \<open>the value bound to a \<^verbatim>\<open>?\<close>: \<^verbatim>\<open>None\<close> is bound as NULL. The handlers
      read a field only after \<open>validate_json\<close> has found it present.\<close>
  "param f = (case f of Val v \<Rightarrow> Some v | _ \<Rightarrow> None)"


definition backend_get_student :: "db \<Rightarrow> int \<Rightarrow> error + student" where
  "backend_get_student d i =
     (case select_by_id d i of Inl err \<Rightarrow> Inl err
      | Inr None \<Rightarrow> Inl (Abort 404 ''Student not found'')
      | Inr (Some r) \<Rightarrow> Inr r)"

definition backend_create_student :: "db \<Rightarrow> timestamp \<Rightarrow> body \<Rightarrow> (error + int) \<times> db" where
  "backend_create_student d now b =
     (case validate_json [''name'', ''email'', ''grade''] b of Some err \<Rightarrow> (Inl err, d)
      | None \<Rightarrow>
        (case param (grade_field b) of None \<Rightarrow> (Inl TypeError, d) | Some k \<Rightarrow>
         if \<not> grade_in_range k then (Inl (Abort 400 ''Grade must be between 0 and 100''), d)
         else
           (case sql_insert d now (param (name_field b)) (param (email_field b)) (Some k) of
              (Inl err, d') \<Rightarrow>
                (case err of IntegrityError c \<Rightarrow> (Inl (Abort 400 ''Email already exists''), d')
                 | _ \<Rightarrow> (Inl err, d'))
            | (Inr i, d') \<Rightarrow> (Inr i, d'))))"

definition backend_update_student :: "db \<Rightarrow> int \<Rightarrow> body \<Rightarrow> (error + string) \<times> db" where
  "backend_update_student d i b =
     (case validate_json [''name'', ''email'', ''grade''] b of Some err \<Rightarrow> (Inl err, d)
      | None \<Rightarrow>
        (case sql_select_id d i of
           (Inl err, d1) \<Rightarrow> (Inl err, d1)
         | (Inr None, d1) \<Rightarrow> (Inl (Abort 404 ''Student not found''), d1)
         | (Inr (Some _), d1) \<Rightarrow>
           (case sql_update d1 (param (name_field b)) (param (email_field b))
                   (param (grade_field b)) i of
              (Inl err, d') \<Rightarrow> (Inl err, d')
            | (Inr _, d') \<Rightarrow> (Inr ''Student updated successfully'', d'))))"


definition backend_get_statistics :: "db \<Rightarrow> statistics" where
  "backend_get_statistics d = select_statistics d"

section \<open>Concrete requests and tables\<close>

text \<open>
  The inputs at which the theorems below are evaluated: request bodies, and tables
  reached from the empty one by calls of the handlers.
\<close>

definition alice_body :: body where
  "alice_body = \<lparr>name_field = Val ''Alice Johnson'', email_field = Val ''alice@school.edu'',
                  grade_field = Val 92, other_keys = []\<rparr>"

definition bob_body :: body where
  "bob_body = \<lparr>name_field = Val ''Bob Smith'', email_field = Val ''bob@school.edu'',
                grade_field = Val 78, other_keys = []\<rparr>"

definition empty_body :: body where
  "empty_body = \<lparr>name_field = Absent, email_field = Absent, grade_field = Absent,
                  other_keys = []\<rparr>"

definition out_of_range_body :: body where
  "out_of_range_body = alice_body\<lparr>grade_field := Val 150\<rparr>"

definition null_grade_body :: body where
  "null_grade_body = alice_body\<lparr>grade_field := Null\<rparr>"

definition duplicate_email_body :: body where
  "duplicate_email_body = bob_body\<lparr>email_field := Val ''alice@school.edu''\<rparr>"

definition one_student_db :: db where
  "one_student_db = snd (backend_create_student empty_db ''2024-01-01 00:00:00'' alice_body)"

definition two_students_db :: db where
  "two_students_db = snd (backend_create_student one_student_db ''2024-01-02 00:00:00'' bob_body)"

definition null_grade_db :: db where
  "null_grade_db = snd (backend_update_student one_student_db 1 null_grade_body)"

definition sample_db :: db where
  "sample_db = init_db ''2024-01-01 00:00:00'' empty_db"

section \<open>Facts about the SQL layer\<close>

lemma sql_and_Some: "sql_and (Some a) (Some b) = Some (a \<and> b)"
  by (cases a; cases b) simp_all

lemma sql_case_simps:
  "sql_true (sql_ge v k) = (case v of None \<Rightarrow> False | Some g \<Rightarrow> k \<le> g)"
  "sql_true (sql_lt v k) = (case v of None \<Rightarrow> False | Some g \<Rightarrow> g < k)"
  "sql_true (sql_and (sql_ge v k) (sql_lt v l)) =
     (case v of None \<Rightarrow> False | Some g \<Rightarrow> k \<le> g \<and> g < l)"
  by (auto simp: sql_true_def sql_ge_def sql_lt_def sql_and_Some split: option.splits)

lemma check_grade_iff:
  "check_grade g = (case g of None \<Rightarrow> True | Some k \<Rightarrow> 0 \<le> k \<and> k \<le> 100)"
  by (auto simp: check_grade_def sql_ge_def sql_le_def sql_and_Some split: option.splits)

lemma sample_db_eq:
  "sample_db =
     \<lparr>rows =
        [\<lparr>student_id = 1, name = ''Alice Johnson'', email = ''alice@school.edu'',
          grade = Some 92, created_at = ''2024-01-01 00:00:00''\<rparr>,
         \<lparr>student_id = 2, name = ''Bob Smith'', email = ''bob@school.edu'',
          grade = Some 78, created_at = ''2024-01-01 00:00:00''\<rparr>,
         \<lparr>student_id = 3, name = ''Charlie Brown'', email = ''charlie@school.edu'',
          grade = Some 85, created_at = ''2024-01-01 00:00:00''\<rparr>,
         \<lparr>student_id = 4, name = ''Diana Prince'', email = ''diana@school.edu'',
          grade = Some 95, created_at = ''2024-01-01 00:00:00''\<rparr>,
         \<lparr>student_id = 5, name = ''Eve Adams'', email = ''eve@school.edu'',
          grade = Some 88, created_at = ''2024-01-01 00:00:00''\<rparr>],
      seq = 5, executed = [INSERT, INSERT, INSERT, INSERT, INSERT]\<rparr>"
  by (simp add: sample_db_def init_db_def sample_students_def insert_or_ignore_def
      sql_insert_def empty_db_def check_grade_iff next_rowid_def bindable_def int64_def)

lemma init_db_again:
  "rows (init_db ''2024-03-01 00:00:00'' sample_db) = rows sample_db
   \<and> seq (init_db ''2024-03-01 00:00:00'' sample_db) = 10"
  by (simp add: sample_db_eq init_db_def sample_students_def insert_or_ignore_def
      sql_insert_def check_grade_iff next_rowid_def bindable_def int64_def)

lemma one_student_db_eq:
  "one_student_db =
     \<lparr>rows = [\<lparr>student_id = 1, name = ''Alice Johnson'', email = ''alice@school.edu'',
               grade = Some 92, created_at = ''2024-01-01 00:00:00''\<rparr>],
      seq = 1, executed = [INSERT]\<rparr>"
  by (simp add: one_student_db_def backend_create_student_def validate_json_def is_empty_def
      has_key_def alice_body_def param_def grade_in_range_def sql_insert_def empty_db_def
      check_grade_iff next_rowid_def bindable_def int64_def)

lemma two_students_db_eq:
  "two_students_db =
     \<lparr>rows = [\<lparr>student_id = 1, name = ''Alice Johnson'', email = ''alice@school.edu'',
               grade = Some 92, created_at = ''2024-01-01 00:00:00''\<rparr>,
              \<lparr>student_id = 2, name = ''Bob Smith'', email = ''bob@school.edu'',
               grade = Some 78, created_at = ''2024-01-02 00:00:00''\<rparr>],
      seq = 2, executed = [INSERT, INSERT]\<rparr>"
  by (simp add: two_students_db_def one_student_db_eq backend_create_student_def
      validate_json_def is_empty_def has_key_def bob_body_def param_def grade_in_range_def
      sql_insert_def check_grade_iff next_rowid_def bindable_def int64_def)

lemma null_grade_db_eq:
  "null_grade_db =
     \<lparr>rows = [\<lparr>student_id = 1, name = ''Alice Johnson'', email = ''alice@school.edu'',
               grade = None, created_at = ''2024-01-01 00:00:00''\<rparr>],
      seq = 1, executed = [INSERT, SELECT, UPDATE]\<rparr>"
  by (simp add: null_grade_db_def one_student_db_eq backend_update_student_def
      validate_json_def is_empty_def has_key_def null_grade_body_def alice_body_def param_def
      sql_select_id_def sql_update_def set_columns_def check_grade_iff bindable_def int64_def)

section \<open>Statistics\<close>

lemma bucket_of_row:
  "(of_bool (is_a r) + of_bool (is_b r) + of_bool (is_c r) + of_bool (is_failing r) :: nat)
     = of_bool (grade r \<noteq> None)"
  by (cases "grade r") (auto simp: is_a_def is_b_def is_c_def is_failing_def sql_case_simps)

lemma bucket_counts_sum:
  "length (filter is_a rs) + length (filter is_b rs) + length (filter is_c rs)
     + length (filter is_failing rs) = length (filter (\<lambda>r. grade r \<noteq> None) rs)"
proof (induction rs)
  case Nil
  show ?case by simp
next
  case (Cons r rs)
  have "(of_bool (is_a r) + of_bool (is_b r) + of_bool (is_c r) + of_bool (is_failing r) :: nat)
     = of_bool (grade r \<noteq> None)" by (rule bucket_of_row)
  with Cons show ?case by (simp add: of_bool_def split: if_splits)
qed

lemma statistics_sample_db:
  "select_statistics sample_db =
     \<lparr>total_students = 5, average_grade = Some 87.6, highest_grade = Some 95,
      lowest_grade = Some 78, a_students = 2, b_students = 2, c_students = 1,
      failing_students = 0\<rparr>"
  by (simp add: sample_db_eq select_statistics_def sql_avg_def sql_max_def sql_min_def
      is_a_def is_b_def is_c_def is_failing_def sql_case_simps)

text \<open>
  Claim C7. Starting from the empty table, inserting the five sample students (grades
  92, 78, 85, 95 and 88) gives the statistics total 5, average 87.6, highest 95,
  lowest 78, two A students, two B students, one C student and no failing student, from
  both front ends. The average is the exact quotient 438/5; the floating-point division
  of SQLite rounds it to the double that the literal 87.6 denotes.
\<close>

theorem statistics_of_sample_students:
  "get_statistics (init_db now empty_db) =
     \<lparr>total_students = 5, average_grade = Some 87.6, highest_grade = Some 95,
      lowest_grade = Some 78, a_students = 2, b_students = 2, c_students = 1,
      failing_students = 0\<rparr>
   \<and> backend_get_statistics (init_db now empty_db) =
     \<lparr>total_students = 5, average_grade = Some 87.6, highest_grade = Some 95,
      lowest_grade = Some 78, a_students = 2, b_students = 2, c_students = 1,
      failing_students = 0\<rparr>
   \<and> map grade (rows (init_db now empty_db)) = [Some 92, Some 78, Some 85, Some 95, Some 88]"
  by (simp add: get_statistics_def backend_get_statistics_def init_db_def sample_students_def
      insert_or_ignore_def sql_insert_def empty_db_def check_grade_iff next_rowid_def
      bindable_def int64_def select_statistics_def sql_avg_def sql_max_def sql_min_def
      is_a_def is_b_def is_c_def is_failing_def sql_case_simps)

text \<open>
  Claim C9. On a table with no rows the statistics are: total 0, the four bucket counts
  0, and NULL for the average, the highest and the lowest grade alike.
\<close>

theorem statistics_empty_table:
  assumes "rows d = []"
  shows "get_statistics d =
     \<lparr>total_students = 0, average_grade = None, highest_grade = None, lowest_grade = None,
      a_students = 0, b_students = 0, c_students = 0, failing_students = 0\<rparr>
   \<and> backend_get_statistics d = get_statistics d"
  using assms
  by (simp add: get_statistics_def backend_get_statistics_def select_statistics_def
      sql_avg_def sql_max_def sql_min_def)

theorem statistics_empty_table_witness:
  "rows empty_db = []
   \<and> get_statistics empty_db =
     \<lparr>total_students = 0, average_grade = None, highest_grade = None, lowest_grade = None,
      a_students = 0, b_students = 0, c_students = 0, failing_students = 0\<rparr>
   \<and> backend_get_statistics empty_db = get_statistics empty_db"
proof -
  have e: "rows empty_db = []" by (simp add: empty_db_def)
  from e statistics_empty_table [OF e] show ?thesis by simp
qed

text \<open>
  Claim C4, as amended. Every row falls into at most one of the four buckets, and into
  exactly one when its grade is not NULL; a row with a NULL grade falls into none. So the
  four counts add up to the number of rows with a grade, which is \<open>total_students\<close>
  when no grade is NULL.
\<close>

theorem buckets_partition_graded_rows:
  "(of_bool (is_a r) + of_bool (is_b r) + of_bool (is_c r) + of_bool (is_failing r) :: nat)
     = of_bool (grade r \<noteq> None)
   \<and> a_students (get_statistics d) + b_students (get_statistics d)
       + c_students (get_statistics d) + failing_students (get_statistics d)
     = length (filter (\<lambda>r. grade r \<noteq> None) (rows d))
   \<and> total_students (get_statistics d) = length (rows d)
   \<and> (list_all (\<lambda>r. grade r \<noteq> None) (rows d) \<longrightarrow>
        a_students (get_statistics d) + b_students (get_statistics d)
          + c_students (get_statistics d) + failing_students (get_statistics d)
        = total_students (get_statistics d))
   \<and> backend_get_statistics d = get_statistics d"
proof -
  have sum: "a_students (get_statistics d) + b_students (get_statistics d)
       + c_students (get_statistics d) + failing_students (get_statistics d)
     = length (filter (\<lambda>r. grade r \<noteq> None) (rows d))"
    by (simp add: get_statistics_def select_statistics_def bucket_counts_sum)
  have tot: "total_students (get_statistics d) = length (rows d)"
    by (simp add: get_statistics_def select_statistics_def)
  have all: "list_all (\<lambda>r. grade r \<noteq> None) (rows d) \<Longrightarrow>
      length (filter (\<lambda>r. grade r \<noteq> None) (rows d)) = length (rows d)"
    by (simp add: list_all_iff)
  have same: "backend_get_statistics d = get_statistics d"
    by (simp add: backend_get_statistics_def get_statistics_def)
  show ?thesis
    using sum tot all same bucket_of_row [of r] by metis
qed

theorem buckets_partition_graded_rows_witness:
  "list_all (\<lambda>r. grade r \<noteq> None) (rows sample_db)
   \<and> a_students (get_statistics sample_db) + b_students (get_statistics sample_db)
       + c_students (get_statistics sample_db) + failing_students (get_statistics sample_db)
     = total_students (get_statistics sample_db)
   \<and> total_students (get_statistics sample_db) = 5"
proof -
  have g: "list_all (\<lambda>r. grade r \<noteq> None) (rows sample_db)"
    by (simp add: sample_db_eq)
  have n: "length (rows sample_db) = 5"
    by (simp add: sample_db_eq)
  from buckets_partition_graded_rows [of _ sample_db] g n show ?thesis
    by metis
qed

theorem buckets_sum_counterexample:
  "a_students (get_statistics null_grade_db) + b_students (get_statistics null_grade_db)
     + c_students (get_statistics null_grade_db) + failing_students (get_statistics null_grade_db)
   \<noteq> total_students (get_statistics null_grade_db)"
  by (simp add: null_grade_db_eq get_statistics_def select_statistics_def
      is_a_def is_b_def is_c_def is_failing_def sql_case_simps)

section \<open>Listing\<close>











section \<open>What the schema lets through\<close>

lemma sql_insert_accepts:
  assumes "bindable g" and "check_grade g" and "e \<notin> set (map email (rows d))"
  shows "sql_insert d now (Some n) (Some e) g =
     (Inr (next_rowid d),
      d\<lparr>executed := executed d @ [INSERT],
        rows := rows d @ [\<lparr>student_id = next_rowid d, name = n, email = e, grade = g,
                          created_at = now\<rparr>],
        seq := next_rowid d\<rparr>)"
  using assms by (simp add: sql_insert_def Let_def)

text \<open>
  Claim C10. The CHECK constraint of the grade column holds for NULL and the column is
  not declared NOT NULL. So an insert that gives a name, an email not yet in the table
  and a NULL grade is accepted: the row is stored with its NULL grade, it raises
  \<open>total_students\<close> by one, and none of the four bucket counts changes.
\<close>

theorem null_grade_row_accepted:
  assumes "e \<notin> set (map email (rows d))"
  shows "check_grade None
   \<and> fst (sql_insert d now (Some n) (Some e) None) = Inr (next_rowid d)
   \<and> rows (snd (sql_insert d now (Some n) (Some e) None)) =
       rows d @ [\<lparr>student_id = next_rowid d, name = n, email = e, grade = None,
                  created_at = now\<rparr>]
   \<and> total_students (get_statistics (snd (sql_insert d now (Some n) (Some e) None)))
       = total_students (get_statistics d) + 1
   \<and> a_students (get_statistics (snd (sql_insert d now (Some n) (Some e) None)))
       = a_students (get_statistics d)
   \<and> b_students (get_statistics (snd (sql_insert d now (Some n) (Some e) None)))
       = b_students (get_statistics d)
   \<and> c_students (get_statistics (snd (sql_insert d now (Some n) (Some e) None)))
       = c_students (get_statistics d)
   \<and> failing_students (get_statistics (snd (sql_insert d now (Some n) (Some e) None)))
       = failing_students (get_statistics d)"
proof -
  have c: "check_grade None"
    by (simp add: check_grade_iff)
  have b: "bindable None"
    by (simp add: bindable_def)
  note ins = sql_insert_accepts [OF b c assms, of now n]
  show ?thesis
    unfolding ins using c
    by (simp add: get_statistics_def select_statistics_def is_a_def is_b_def is_c_def
        is_failing_def sql_case_simps)
qed

theorem null_grade_row_accepted_witness:
  "''zoe@school.edu'' \<notin> set (map email (rows sample_db))
   \<and> fst (sql_insert sample_db ''2024-02-01 00:00:00'' (Some ''Zoe'') (Some ''zoe@school.edu'') None)
       = Inr 6
   \<and> total_students (get_statistics
        (snd (sql_insert sample_db ''2024-02-01 00:00:00'' (Some ''Zoe'') (Some ''zoe@school.edu'') None)))
       = 6
   \<and> a_students (get_statistics
        (snd (sql_insert sample_db ''2024-02-01 00:00:00'' (Some ''Zoe'') (Some ''zoe@school.edu'') None)))
       = 2"
proof -
  have h: "''zoe@school.edu'' \<notin> set (map email (rows sample_db))"
    by (simp add: sample_db_eq)
  have n: "next_rowid sample_db = 6"
    by (simp add: next_rowid_def sample_db_eq)
  have s: "total_students (get_statistics sample_db) = 5" "a_students (get_statistics sample_db) = 2"
    by (simp_all add: get_statistics_def statistics_sample_db)
  from null_grade_row_accepted [OF h, of "''2024-02-01 00:00:00''" "''Zoe''"] h n s
  show ?thesis by simp
qed

section \<open>Required fields\<close>

lemma first_missing_required:
  "first_missing b [''name'', ''email'', ''grade''] =
     (if name_field b = Absent then Some ''name''
      else if email_field b = Absent then Some ''email''
      else if grade_field b = Absent then Some ''grade'' else None)"
  by (simp add: has_key_def)

lemma validate_json_required:
  "validate_json [''name'', ''email'', ''grade''] b =
     (if is_empty b then Some (Abort 400 ''No JSON data provided'')
      else if name_field b = Absent then Some (Abort 400 ''Missing required field: name'')
      else if email_field b = Absent then Some (Abort 400 ''Missing required field: email'')
      else if grade_field b = Absent then Some (Abort 400 ''Missing required field: grade'')
      else None)"
  unfolding validate_json_def first_missing_required by simp

text \<open>
  Claim C8, as amended. A create request whose body lacks \<open>name\<close>, \<open>email\<close> or
  \<open>grade\<close> fails with status 400 before any statement is executed, and the database is
  the one before the call. When the body has no key at all the message is
  "No JSON data provided"; otherwise it is "Missing required field: " followed by the first
  absent field in the order name, email, grade.
\<close>

theorem create_missing_field:
  assumes "name_field b = Absent \<or> email_field b = Absent \<or> grade_field b = Absent"
  shows "backend_create_student d now b =
     (Inl (Abort 400
        (if is_empty b then ''No JSON data provided''
         else ''Missing required field: '' @
           (if name_field b = Absent then ''name''
            else if email_field b = Absent then ''email'' else ''grade''))), d)"
  using assms
  unfolding backend_create_student_def validate_json_required
  by auto

theorem create_missing_field_witness:
  "(name_field (alice_body\<lparr>email_field := Absent\<rparr>) = Absent
      \<or> email_field (alice_body\<lparr>email_field := Absent\<rparr>) = Absent
      \<or> grade_field (alice_body\<lparr>email_field := Absent\<rparr>) = Absent)
   \<and> backend_create_student empty_db ''2024-01-01 00:00:00'' (alice_body\<lparr>email_field := Absent\<rparr>)
       = (Inl (Abort 400 ''Missing required field: email''), empty_db)"
proof -
  have h: "name_field (alice_body\<lparr>email_field := Absent\<rparr>) = Absent
      \<or> email_field (alice_body\<lparr>email_field := Absent\<rparr>) = Absent
      \<or> grade_field (alice_body\<lparr>email_field := Absent\<rparr>) = Absent"
    by simp
  from h create_missing_field [OF h, of empty_db "''2024-01-01 00:00:00''"]
  show ?thesis
    by (simp add: alice_body_def is_empty_def)
qed

theorem create_empty_body_counterexample:
  "name_field empty_body = Absent
   \<and> backend_create_student empty_db ''2024-01-01 00:00:00'' empty_body
       = (Inl (Abort 400 ''No JSON data provided''), empty_db)"
  by (simp add: backend_create_student_def validate_json_required is_empty_def empty_body_def)

section \<open>Delete\<close>












section \<open>Update\<close>







lemma sql_update_overflow:
  "\<not> (bindable g \<and> int64 i) \<Longrightarrow> sql_update d n e g i = (Inl OverflowError, d)"
  by (simp add: sql_update_def)


lemma grade_in_range_bindable: "grade_in_range k \<Longrightarrow> bindable (Some k)"
  by (simp add: grade_in_range_def bindable_def int64_def)


lemma sql_update_error_rows:
  "fst (sql_update d n e g i) = Inl c \<Longrightarrow> rows (snd (sql_update d n e g i)) = rows d"
  by (auto simp: sql_update_def Let_def split: option.splits if_splits)






lemma update_student_overflow:
  "\<not> int64 i \<Longrightarrow> grade_in_range k \<Longrightarrow>
     update_student d i n e (Some k) = (Inl OverflowError, d)"
  by (simp add: update_student_def sql_update_overflow)


lemma first_id_match:
  "(case filter (\<lambda>r. student_id r = i) rs of [] \<Rightarrow> None | r # _ \<Rightarrow> Some (student_id r))
     = (if i \<in> set (map student_id rs) then Some i else None)"
proof (cases "filter (\<lambda>r. student_id r = i) rs")
  case Nil
  then have "i \<notin> set (map student_id rs)"
    by (auto simp: filter_empty_conv)
  with Nil show ?thesis by simp
next
  case (Cons r rs')
  then have "r \<in> set (filter (\<lambda>r. student_id r = i) rs)" by simp
  then have "student_id r = i" "i \<in> set (map student_id rs)" by auto
  with Cons show ?thesis by simp
qed

lemma sql_select_id_eq:
  "sql_select_id d i =
     (if \<not> int64 i then (Inl OverflowError, d)
      else (Inr (if i \<in> set (map student_id (rows d)) then Some i else None),
            d\<lparr>executed := executed d @ [SELECT]\<rparr>))"
  by (simp add: sql_select_id_def first_id_match)

lemma backend_update_student_eq:
  "backend_update_student d i b =
     (case validate_json [''name'', ''email'', ''grade''] b of Some err \<Rightarrow> (Inl err, d)
      | None \<Rightarrow>
        if \<not> int64 i then (Inl OverflowError, d)
        else if i \<notin> set (map student_id (rows d))
        then (Inl (Abort 404 ''Student not found''), d\<lparr>executed := executed d @ [SELECT]\<rparr>)
        else
          (case fst (sql_update (d\<lparr>executed := executed d @ [SELECT]\<rparr>) (param (name_field b))
                  (param (email_field b)) (param (grade_field b)) i) of
             Inl err \<Rightarrow> Inl err | Inr _ \<Rightarrow> Inr ''Student updated successfully'',
           snd (sql_update (d\<lparr>executed := executed d @ [SELECT]\<rparr>) (param (name_field b))
                  (param (email_field b)) (param (grade_field b)) i)))"
  by (simp add: backend_update_student_def sql_select_id_eq
      split: option.splits prod.splits sum.splits)












section \<open>Grade validation and duplicate emails\<close>

lemma add_student_invalid_grade:
  "\<not> grade_in_range k \<Longrightarrow>
     add_student d now n e (Some k) = (Inl (ValueError ''Grade must be between 0 and 100''), d)"
  by (simp add: add_student_def)

lemma update_student_invalid_grade:
  "\<not> grade_in_range k \<Longrightarrow>
     update_student d i n e (Some k) = (Inl (ValueError ''Grade must be between 0 and 100''), d)"
  by (simp add: update_student_def)

lemma backend_create_invalid_grade:
  assumes "name_field b \<noteq> Absent" and "email_field b \<noteq> Absent" and "grade_field b = Val k"
    and "\<not> grade_in_range k"
  shows "backend_create_student d now b
     = (Inl (Abort 400 ''Grade must be between 0 and 100''), d)"
  using assms
  by (simp add: backend_create_student_def validate_json_required is_empty_def param_def)

lemma check_grade_range: "check_grade (Some k) = grade_in_range k"
  by (simp add: check_grade_iff grade_in_range_def)

lemma backend_update_invalid_grade:
  assumes "i \<in> set (map student_id (rows d))" and "int64 i"
    and "name_field b = Val n" and "email_field b = Val e" and "grade_field b = Val k"
    and "int64 k" and "\<not> grade_in_range k"
  shows "backend_update_student d i b
     = (Inl (IntegrityError Check_grade), d\<lparr>executed := executed d @ [SELECT, UPDATE]\<rparr>)"
  using assms
  by (simp add: backend_update_student_eq validate_json_required is_empty_def param_def
      sql_update_def check_grade_range bindable_def)

lemma backend_create_duplicate_email:
  assumes "name_field b = Val n" and "email_field b = Val e" and "grade_field b = Val k"
    and "grade_in_range k" and "e \<in> set (map email (rows d))"
  shows "backend_create_student d now b
     = (Inl (Abort 400 ''Email already exists''), d\<lparr>executed := executed d @ [INSERT]\<rparr>)"
  using assms
  by (simp add: backend_create_student_def validate_json_required is_empty_def param_def
      sql_insert_def check_grade_range grade_in_range_bindable)

lemma add_student_duplicate_email:
  assumes "grade_in_range k" and "e \<in> set (map email (rows d))"
  shows "add_student d now n e (Some k)
     = (Inl (IntegrityError Unique_email), d\<lparr>executed := executed d @ [INSERT]\<rparr>)"
  using assms
  by (simp add: add_student_def sql_insert_def check_grade_range grade_in_range_bindable)

lemma backend_update_duplicate_email_general:
  assumes "i \<in> set (map student_id (rows d))" and "int64 i"
    and "name_field b = Val n" and "email_field b = Val e" and "grade_field b = Val k"
    and "grade_in_range k"
    and "e \<in> set (map email (filter (\<lambda>r. student_id r \<noteq> i) (rows d)))"
  shows "backend_update_student d i b
     = (Inl (IntegrityError Unique_email), d\<lparr>executed := executed d @ [SELECT, UPDATE]\<rparr>)"
  using assms
  by (simp add: backend_update_student_eq validate_json_required is_empty_def param_def
      sql_update_def check_grade_range grade_in_range_bindable)

text \<open>
  Claim C1 says that every create and every update request with a grade outside [0,100]
  fails with InvalidGrade before any statement is executed. \<open>add_student\<close>,
  \<open>update_student\<close> and the HTTP create handler do so (the three lemmas on an invalid
  grade above). The HTTP update handler has no range check: on the table with the one
  student of id 1, a PUT for id 1 with grade 150 sends the SELECT and the UPDATE, and the
  CHECK constraint of the table raises an IntegrityError that nothing catches. At the same
  table and grade, the HTTP create handler and \<open>update_student\<close> answer with the
  InvalidGrade error and send nothing.
\<close>

theorem backend_update_out_of_range_grade:
  "backend_update_student one_student_db 1 out_of_range_body
     = (Inl (IntegrityError Check_grade),
        one_student_db\<lparr>executed := executed one_student_db @ [SELECT, UPDATE]\<rparr>)
   \<and> backend_create_student one_student_db ''2024-01-03 00:00:00'' out_of_range_body
     = (Inl (Abort 400 ''Grade must be between 0 and 100''), one_student_db)
   \<and> update_student one_student_db 1 ''Alice Johnson'' ''alice@school.edu'' (Some 150)
     = (Inl (ValueError ''Grade must be between 0 and 100''), one_student_db)"
proof -
  have r: "\<not> grade_in_range 150"
    by (simp add: grade_in_range_def)
  have b: "int64 1" "int64 150"
    by (simp_all add: int64_def)
  have i: "1 \<in> set (map student_id (rows one_student_db))"
    by (simp add: one_student_db_eq)
  have f: "name_field out_of_range_body = Val ''Alice Johnson''"
    "email_field out_of_range_body = Val ''alice@school.edu''"
    "grade_field out_of_range_body = Val 150"
    by (simp_all add: out_of_range_body_def alice_body_def)
  have u: "backend_update_student one_student_db 1 out_of_range_body
     = (Inl (IntegrityError Check_grade),
        one_student_db\<lparr>executed := executed one_student_db @ [SELECT, UPDATE]\<rparr>)"
    using i b(1) f b(2) r by (rule backend_update_invalid_grade)
  have c: "backend_create_student one_student_db ''2024-01-03 00:00:00'' out_of_range_body
     = (Inl (Abort 400 ''Grade must be between 0 and 100''), one_student_db)"
    using f r by (simp add: backend_create_invalid_grade)
  from u c r show ?thesis
    by (simp add: update_student_invalid_grade)
qed

text \<open>
  Claim C2 says that every create and every update request whose email belongs to another
  student fails with DuplicateEmail, caught from the engine's uniqueness violation at the
  write. The HTTP create handler does so: it sends the INSERT alone and turns the
  IntegrityError into the error 400 "Email already exists". The HTTP update handler has no
  such handler around its UPDATE: on the table with Alice (id 1) and Bob (id 2), a PUT for
  id 2 with Alice's email raises an IntegrityError that nothing catches. In both cases the
  rows are unchanged.
\<close>

theorem backend_update_duplicate_email:
  "backend_update_student two_students_db 2 duplicate_email_body
     = (Inl (IntegrityError Unique_email),
        two_students_db\<lparr>executed := executed two_students_db @ [SELECT, UPDATE]\<rparr>)
   \<and> backend_create_student two_students_db ''2024-01-03 00:00:00'' duplicate_email_body
     = (Inl (Abort 400 ''Email already exists''),
        two_students_db\<lparr>executed := executed two_students_db @ [INSERT]\<rparr>)"
proof -
  have r: "grade_in_range 78"
    by (simp add: grade_in_range_def)
  have b: "int64 2"
    by (simp add: int64_def)
  have i: "2 \<in> set (map student_id (rows two_students_db))"
    by (simp add: two_students_db_eq)
  have f: "name_field duplicate_email_body = Val ''Bob Smith''"
    "email_field duplicate_email_body = Val ''alice@school.edu''"
    "grade_field duplicate_email_body = Val 78"
    by (simp_all add: duplicate_email_body_def bob_body_def)
  have other: "''alice@school.edu''
      \<in> set (map email (filter (\<lambda>r. student_id r \<noteq> 2) (rows two_students_db)))"
    by (simp add: two_students_db_eq)
  have any: "''alice@school.edu'' \<in> set (map email (rows two_students_db))"
    by (simp add: two_students_db_eq)
  have u: "backend_update_student two_students_db 2 duplicate_email_body
     = (Inl (IntegrityError Unique_email),
        two_students_db\<lparr>executed := executed two_students_db @ [SELECT, UPDATE]\<rparr>)"
    using i b f r other by (rule backend_update_duplicate_email_general)
  have c: "backend_create_student two_students_db ''2024-01-03 00:00:00'' duplicate_email_body
     = (Inl (Abort 400 ''Email already exists''),
        two_students_db\<lparr>executed := executed two_students_db @ [INSERT]\<rparr>)"
    using f r any by (rule backend_create_duplicate_email)
  from u c show ?thesis by blast
qed

end
